theory Spec2Isabelle
  imports Complex_Main "HOL-Library.Multiset"
begin

section \<open>The cube-rotation engine of \<^verbatim>\<open>src/app/page.tsx\<close>\<close>

text \<open>
  The engine keeps 27 cubelets, each with a position, six facelet colours and a transient
  rotation. A face turn selects the cubelets of one layer, animates them, and on completion
  commits a discrete quarter turn: \<^verbatim>\<open>rotatePosition\<close> on the snapshot of the position and
  \<^verbatim>\<open>rotateColors\<close> on the colours. The repository holds the engine twice, in
  \<^verbatim>\<open>src/app/page.tsx\<close> with type annotations and in a second file without; the two agree
  on everything modelled here.

  Numbers. A JavaScript number is a double; every finite double is a rational, and the
  operations the committed state goes through (negation, comparison with \<open>1\<close> and \<open>-1\<close>,
  \<^verbatim>\<open>Math.round\<close>) are exact on doubles, so coordinates are modelled as \<^typ>\<open>rat\<close>. The two
  zeros of a double are equal for every comparison the source makes. The one rounding
  operation the engine's decisions depend on, the product \<^verbatim>\<open>Math.random() * faces.length\<close>
  of the scrambler, is computed with the rounding of doubles (\<open>toDouble\<close> below). The
  trigonometric interpolation of the animation frames is floating point and is not
  computed here: a frame takes the values it writes as a parameter.
\<close>

subsection \<open>Data model\<close>

type_synonym vec3 = "rat \<times> rat \<times> rat"

text \<open>
  A slot of a JavaScript array of strings. \<open>None\<close> is \<^verbatim>\<open>undefined\<close>, the value an
  out-of-range read returns and the value the holes of an extended array read as.
\<close>

type_synonym 'a slot = "'a option"

type_synonym color = string

datatype Face = Front | Back | Left | Right | Top | Bottom

record CubePieceState =
  pieceId :: string
  position :: vec3
  colors :: "color slot list"
  rotation :: vec3
  animationRotation :: vec3

record ShuffleMove =
  face :: Face
  clockwise :: bool

subsection \<open>JavaScript array reads and writes\<close>

definition arr_get :: "'a slot list \<Rightarrow> nat \<Rightarrow> 'a slot" where
  "arr_get xs i = (if i < length xs then xs ! i else None)"

definition arr_set :: "'a slot list \<Rightarrow> nat \<Rightarrow> 'a slot \<Rightarrow> 'a slot list" where
  "arr_set xs i v =
     (if i < length xs then xs[i := v]
      else xs @ replicate (i - length xs) None @ [v])"

subsection \<open>Permutation engine\<close>

text \<open>\<^verbatim>\<open>rotatePosition(pos, axis, clockwise)\<close>: the axis is a string; any other string
  than \<^verbatim>\<open>'x'\<close>, \<^verbatim>\<open>'y'\<close>, \<^verbatim>\<open>'z'\<close> takes the \<^verbatim>\<open>default\<close> branch. The parameter
  \<^verbatim>\<open>clockwise\<close> is written \<open>cw\<close> and \<^verbatim>\<open>colors\<close> is written \<open>cols\<close>, the field \<^verbatim>\<open>id\<close>
  of a piece \<open>pieceId\<close>: the source's names are taken by record fields and by the
  identity function.\<close>

fun rotatePosition :: "vec3 \<Rightarrow> string \<Rightarrow> bool \<Rightarrow> vec3" where
  "rotatePosition (x, y, z) axis cw =
     (if axis = ''x'' then (if cw then (x, - z, y) else (x, z, - y))
      else if axis = ''y'' then (if cw then (z, y, - x) else (- z, y, x))
      else if axis = ''z'' then (if cw then (- y, x, z) else (y, - x, z))
      else (x, y, z))"

text \<open>\<^verbatim>\<open>rotateColors(colors, axis, clockwise)\<close>: a copy of the array, then four
  assignments through a temporary, in the order of the source.\<close>

definition rotateColors :: "'a slot list \<Rightarrow> string \<Rightarrow> bool \<Rightarrow> 'a slot list" where
  "rotateColors cols axis cw =
     (let newColors = cols in
      if axis = ''x'' then
        (if \<not> cw then
           (let temp = arr_get newColors 2;
                n1 = arr_set newColors 2 (arr_get newColors 4);
                n2 = arr_set n1 4 (arr_get n1 3);
                n3 = arr_set n2 3 (arr_get n2 5);
                n4 = arr_set n3 5 temp
            in n4)
         else
           (let temp = arr_get newColors 2;
                n1 = arr_set newColors 2 (arr_get newColors 5);
                n2 = arr_set n1 5 (arr_get n1 3);
                n3 = arr_set n2 3 (arr_get n2 4);
                n4 = arr_set n3 4 temp
            in n4))
      else if axis = ''y'' then
        (if \<not> cw then
           (let temp = arr_get newColors 0;
                n1 = arr_set newColors 0 (arr_get newColors 4);
                n2 = arr_set n1 4 (arr_get n1 1);
                n3 = arr_set n2 1 (arr_get n2 5);
                n4 = arr_set n3 5 temp
            in n4)
         else
           (let temp = arr_get newColors 0;
                n1 = arr_set newColors 0 (arr_get newColors 5);
                n2 = arr_set n1 5 (arr_get n1 1);
                n3 = arr_set n2 1 (arr_get n2 4);
                n4 = arr_set n3 4 temp
            in n4))
      else if axis = ''z'' then
        (if \<not> cw then
           (let temp = arr_get newColors 0;
                n1 = arr_set newColors 0 (arr_get newColors 2);
                n2 = arr_set n1 2 (arr_get n1 1);
                n3 = arr_set n2 1 (arr_get n2 3);
                n4 = arr_set n3 3 temp
            in n4)
         else
           (let temp = arr_get newColors 0;
                n1 = arr_set newColors 0 (arr_get newColors 3);
                n2 = arr_set n1 3 (arr_get n1 1);
                n3 = arr_set n2 1 (arr_get n2 2);
                n4 = arr_set n3 2 temp
            in n4))
      else newColors)"

subsection \<open>Face selector\<close>

text \<open>\<^verbatim>\<open>Math.round\<close> rounds to the nearest integer, a tie towards \<open>+\<infinity>\<close>.\<close>

definition Math_round :: "rat \<Rightarrow> int" where
  "Math_round x = \<lfloor>x + 1 / 2\<rfloor>"

text \<open>The \<^verbatim>\<open>switch (face)\<close> inside the \<^verbatim>\<open>forEach\<close> of \<^verbatim>\<open>rotateFace\<close> that sets
  \<^verbatim>\<open>shouldRotate\<close>.\<close>

definition shouldRotate :: "Face \<Rightarrow> CubePieceState \<Rightarrow> bool" where
  "shouldRotate f piece =
     (case position piece of (x, y, z) \<Rightarrow>
        (case f of
           Front \<Rightarrow> Math_round z = 1
         | Back \<Rightarrow> Math_round z = - 1
         | Top \<Rightarrow> Math_round y = 1
         | Bottom \<Rightarrow> Math_round y = - 1
         | Right \<Rightarrow> Math_round x = 1
         | Left \<Rightarrow> Math_round x = - 1))"

text \<open>\<^verbatim>\<open>getAxisForFace\<close>; its \<^verbatim>\<open>default\<close> branch is unreachable for the closed type
  \<^verbatim>\<open>Face\<close>.\<close>

fun getAxisForFace :: "Face \<Rightarrow> string" where
  "getAxisForFace Front = ''z''"
| "getAxisForFace Back = ''z''"
| "getAxisForFace Top = ''y''"
| "getAxisForFace Bottom = ''y''"
| "getAxisForFace Right = ''x''"
| "getAxisForFace Left = ''x''"

subsection \<open>Cube state\<close>

definition COLORS_front :: color where "COLORS_front = ''#ff0000''"
definition COLORS_back :: color where "COLORS_back = ''#ffa500''"
definition COLORS_left :: color where "COLORS_left = ''#00ff00''"
definition COLORS_right :: color where "COLORS_right = ''#0000ff''"
definition COLORS_top :: color where "COLORS_top = ''#ffff00''"
definition COLORS_bottom :: color where "COLORS_bottom = ''#ffffff''"

text \<open>The decimal rendering of an integer by a template literal.\<close>

fun showNat :: "nat \<Rightarrow> string" where
  "showNat n =
     (if n < 10 then [''0123456789'' ! n]
      else showNat (n div 10) @ [''0123456789'' ! (n mod 10)])"

declare showNat.simps [simp del]

definition showInt :: "int \<Rightarrow> string" where
  "showInt i = (if i < 0 then ''-'' @ showNat (nat (- i)) else showNat (nat i))"

text \<open>The body of the innermost loop of \<^verbatim>\<open>initializeCube\<close>: the piece pushed for
  \<open>(x, y, z)\<close>.\<close>

definition newPiece :: "int \<Rightarrow> int \<Rightarrow> int \<Rightarrow> CubePieceState" where
  "newPiece x y z =
     \<lparr> pieceId = showInt x @ ''-'' @ showInt y @ ''-'' @ showInt z,
       position = (of_int x, of_int y, of_int z),
       colors =
         [ Some (if x = 1 then COLORS_right else ''#333333''),
           Some (if x = - 1 then COLORS_left else ''#333333''),
           Some (if y = 1 then COLORS_top else ''#333333''),
           Some (if y = - 1 then COLORS_bottom else ''#333333''),
           Some (if z = 1 then COLORS_front else ''#333333''),
           Some (if z = - 1 then COLORS_back else ''#333333'') ],
       rotation = (0, 0, 0),
       animationRotation = (0, 0, 0) \<rparr>"

text \<open>The three nested \<^verbatim>\<open>for\<close> loops from \<open>-1\<close> to \<open>1\<close>, \<open>z\<close> innermost.\<close>

definition initializeCube :: "CubePieceState list" where
  "initializeCube =
     concat (map (\<lambda>x. concat (map (\<lambda>y. map (\<lambda>z. newPiece x y z) [- 1, 0, 1]) [- 1, 0, 1]))
       [- 1, 0, 1])"

subsection \<open>Turn animator\<close>

text \<open>
  What the closure \<^verbatim>\<open>animate\<close> of one call of \<^verbatim>\<open>rotateFace\<close> holds. The pieces are
  objects shared by \<^verbatim>\<open>cubeState\<close>, \<^verbatim>\<open>newState\<close> and \<^verbatim>\<open>rotatingPieces\<close>; here
  \<open>newState\<close> is the store of the pieces and \<open>rotatingPieces\<close> lists the selected pieces
  by their index in \<open>newState\<close>, in the order of the \<^verbatim>\<open>forEach\<close>.
\<close>

record Animation =
  animFace :: Face
  animClockwise :: bool
  newState :: "CubePieceState list"
  rotatingPieces :: "nat list"
  originalPositions :: "vec3 list"
  originalRotations :: "vec3 list"

text \<open>
  The React state of \<^verbatim>\<open>RubiksCubeScene\<close> that the engine reads and writes, and the
  animation in flight, if any. The timers of the scrambler (\<^verbatim>\<open>shuffleTimeouts\<close>,
  \<^verbatim>\<open>shuffleActiveRef\<close>) are not part of the model.
\<close>

record Engine =
  cubeState :: "CubePieceState list"
  isAnimating :: bool
  isShuffling :: bool
  animation :: "Animation option"

text \<open>\<^verbatim>\<open>rotatingPieces.forEach((piece, index) => ...)\<close>: \<open>body\<close> is what one iteration
  writes to the piece.\<close>

fun forEachPiece ::
  "(CubePieceState \<Rightarrow> nat \<Rightarrow> CubePieceState) \<Rightarrow> nat list \<Rightarrow> nat \<Rightarrow> CubePieceState list
     \<Rightarrow> CubePieceState list" where
  "forEachPiece body [] index st = st"
| "forEachPiece body (i # rest) index st =
     forEachPiece body rest (Suc index) (st[i := body (st ! i) index])"

text \<open>
  \<^verbatim>\<open>rotateFace(face, clockwise)\<close> up to the first \<^verbatim>\<open>requestAnimationFrame\<close>. The
  function is a closure: \<^verbatim>\<open>isAnimating\<close> and \<^verbatim>\<open>cubeState\<close> in its body are the values of
  the render that created it (\<^verbatim>\<open>useCallback(..., [cubeState, isAnimating])\<close>), not the
  React state at the time of the call. \<open>rotateFaceCall\<close> is that body, with the two
  captured values as parameters: \<open>capturedIsAnimating\<close>, and \<open>st\<close>, the captured array with
  its pieces (shared objects) as they are at the call. It returns \<open>None\<close> when the guard
  returns, and otherwise the animation it schedules, after \<^verbatim>\<open>setIsAnimating(true)\<close>: the
  selection with the snapshot of the selected pieces' positions and rotations. Every
  index in \<open>rotatingPieces\<close> is below the length of \<open>newState\<close>, and the two snapshots are
  as long as \<open>rotatingPieces\<close>.
\<close>

definition rotateFaceCall ::
  "bool \<Rightarrow> CubePieceState list \<Rightarrow> Face \<Rightarrow> bool \<Rightarrow> Animation option" where
  "rotateFaceCall capturedIsAnimating st f cw =
     (if capturedIsAnimating then None
      else
        (let selected = filter (\<lambda>i. shouldRotate f (st ! i)) [0..<length st]
         in Some
              \<lparr> animFace = f, animClockwise = cw, newState = st,
                rotatingPieces = selected,
                originalPositions = map (\<lambda>i. position (st ! i)) selected,
                originalRotations = map (\<lambda>i. rotation (st ! i)) selected \<rparr>))"

text \<open>
  The call through the closure of the render that shows the state \<open>s\<close>, which is what
  \<^verbatim>\<open>window.rotateFace\<close> holds once React has rendered \<open>s\<close>: the captured values are those
  of \<open>s\<close>, and one animation is in flight at a time (lemma \<open>rotateFace_as_call\<close>).
\<close>

definition rotateFace :: "Face \<Rightarrow> bool \<Rightarrow> Engine \<Rightarrow> Engine" where
  "rotateFace f cw s =
     (if isAnimating s then s
      else
        (let st = cubeState s;
             selected = filter (\<lambda>i. shouldRotate f (st ! i)) [0..<length st]
         in s\<lparr> isAnimating := True,
                animation := Some
                  \<lparr> animFace = f, animClockwise = cw, newState = st,
                    rotatingPieces = selected,
                    originalPositions = map (\<lambda>i. position (st ! i)) selected,
                    originalRotations = map (\<lambda>i. rotation (st ! i)) selected \<rparr> \<rparr>))"

text \<open>
  The branch \<^verbatim>\<open>progress < 1\<close> of \<^verbatim>\<open>animate\<close>. The position and the rotation a frame
  writes to the selected piece number \<open>index\<close> come from floating-point sines and cosines
  of the eased angle; they are the parameter \<open>frameValues\<close>.
\<close>

definition animateFrame :: "(nat \<Rightarrow> vec3 \<times> vec3) \<Rightarrow> Engine \<Rightarrow> Engine" where
  "animateFrame frameValues s =
     (case animation s of
        None \<Rightarrow> s
      | Some a \<Rightarrow>
          (let st = forEachPiece
                 (\<lambda>piece index. piece\<lparr> position := fst (frameValues index),
                                        rotation := snd (frameValues index) \<rparr>)
                 (rotatingPieces a) 0 (newState a)
           in s\<lparr> cubeState := st, animation := Some (a\<lparr> newState := st \<rparr>) \<rparr>))"

text \<open>The direction of the colour transform at completion.\<close>

definition colorClockwise :: "Face \<Rightarrow> bool \<Rightarrow> bool" where
  "colorClockwise f cw = (if f = Top \<or> f = Bottom then \<not> cw else cw)"

text \<open>The branch \<^verbatim>\<open>else\<close> of \<^verbatim>\<open>animate\<close> (animation complete): what it writes to one
  selected piece, and the whole branch.\<close>

definition commitPiece :: "Face \<Rightarrow> bool \<Rightarrow> vec3 \<Rightarrow> CubePieceState \<Rightarrow> CubePieceState" where
  "commitPiece f cw orig piece =
     piece\<lparr> position := rotatePosition orig (getAxisForFace f) cw,
            colors := rotateColors (colors piece) (getAxisForFace f) (colorClockwise f cw),
            rotation := (0, 0, 0) \<rparr>"

definition animateComplete :: "Engine \<Rightarrow> Engine" where
  "animateComplete s =
     (case animation s of
        None \<Rightarrow> s
      | Some a \<Rightarrow>
          (let st = forEachPiece
                 (\<lambda>piece index.
                    commitPiece (animFace a) (animClockwise a) (originalPositions a ! index) piece)
                 (rotatingPieces a) 0 (newState a)
           in s\<lparr> cubeState := st, isAnimating := False, animation := None \<rparr>))"

text \<open>
  The same branch for an animation \<open>a\<close> on the pieces \<open>st\<close> as they are when it runs: the
  pieces are shared objects, so with a second animation in flight they are not those of
  the request (lemma \<open>animateComplete_as_commit\<close> for one animation in flight).
\<close>

definition commitAnimation :: "Animation \<Rightarrow> CubePieceState list \<Rightarrow> CubePieceState list" where
  "commitAnimation a st =
     forEachPiece
       (\<lambda>piece index.
          commitPiece (animFace a) (animClockwise a) (originalPositions a ! index) piece)
       (rotatingPieces a) 0 st"

text \<open>\<^verbatim>\<open>animate(currentTime)\<close>; \<open>progress\<close> is the value the source computes from the
  clock, \<^verbatim>\<open>Math.min(elapsed / animationDuration, 1)\<close>.\<close>

definition animate :: "rat \<Rightarrow> (nat \<Rightarrow> vec3 \<times> vec3) \<Rightarrow> Engine \<Rightarrow> Engine" where
  "animate progress frameValues s =
     (if progress < 1 then animateFrame frameValues s else animateComplete s)"

text \<open>A turn awaited to completion: the request, then the completing call of
  \<^verbatim>\<open>animate\<close>. The frames in between do not change what is committed
  (lemma \<open>frames_do_not_matter\<close>).\<close>

definition turn :: "Face \<Rightarrow> bool \<Rightarrow> Engine \<Rightarrow> Engine" where
  "turn f cw s = animateComplete (rotateFace f cw s)"

text \<open>\<^verbatim>\<open>resetCube\<close>: \<^verbatim>\<open>setCubeState(initializeCube())\<close>, nothing else.\<close>

definition resetCube :: "Engine \<Rightarrow> Engine" where
  "resetCube s = s\<lparr> cubeState := initializeCube \<rparr>"

text \<open>The engine when the component mounts.\<close>

definition initialEngine :: Engine where
  "initialEngine =
     \<lparr> cubeState = initializeCube, isAnimating = False, isShuffling = False,
       animation = None \<rparr>"

subsection \<open>Scrambler\<close>

text \<open>
  \<^verbatim>\<open>Math.random()\<close> is an input: the list of the values it returns, in the order of the
  calls, each a double in \<open>[0, 1)\<close>. A run that asks for more values than the list holds
  stops with \<open>RandomExhausted\<close>; the source would go on drawing. For a value outside
  \<open>[0, 1)\<close>, which \<^verbatim>\<open>Math.random()\<close> never returns, \<^verbatim>\<open>faces[...]\<close> would be
  \<^verbatim>\<open>undefined\<close>: the model stops with \<open>FaceUndefined\<close>.
\<close>

datatype shuffle_stop = RandomExhausted | FaceUndefined

definition faces :: "Face list" where
  "faces = [Front, Back, Top, Bottom, Right, Left]"

definition shuffleMoves :: nat where
  "shuffleMoves = 20"

text \<open>
  The product of two doubles is the double nearest to the exact product, a tie going to
  the even significand. \<open>roundEven\<close> rounds to the nearest integer, a tie to the even one.
  \<open>spacing x\<close> is the distance between neighbouring doubles around \<open>x\<close> for
  \<open>0 \<le> x < 8\<close>: \<open>2\<^sup>-\<^sup>5\<^sup>0\<close> in \<open>[4, 8)\<close>, halved for each binade below, down to \<open>2\<^sup>-\<^sup>1\<^sup>0\<^sup>7\<^sup>4\<close> for
  the lowest normal binade and the subnormal numbers. \<open>toDouble x\<close> is the double nearest
  to \<open>x\<close>, for \<open>0 \<le> x < 8\<close>, which holds the product of a value of \<^verbatim>\<open>Math.random()\<close>
  with \<open>6\<close>.
\<close>

definition roundEven :: "rat \<Rightarrow> int" where
  "roundEven y =
     (let n = \<lfloor>y\<rfloor>; d = y - of_int n
      in if d < 1 / 2 then n else if 1 / 2 < d then n + 1
         else if even n then n else n + 1)"

fun ulp :: "nat \<Rightarrow> rat \<Rightarrow> rat \<Rightarrow> rat" where
  "ulp n q x = (if n = 0 \<or> q * 2 ^ 52 \<le> x then q else ulp (n - 1) (q / 2) x)"

declare ulp.simps [simp del]

definition spacing :: "rat \<Rightarrow> rat" where
  "spacing x = ulp 1024 (1 / 2 ^ 50) x"

definition toDouble :: "rat \<Rightarrow> rat" where
  "toDouble x = of_int (roundEven (x / spacing x)) * spacing x"

text \<open>\<^verbatim>\<open>faces[Math.floor(r * faces.length)]\<close>, the product computed in doubles. For a
  double \<open>r\<close> outside \<open>[0, 1)\<close> the index is out of range in the source and here.\<close>

definition randomFaceAt :: "rat \<Rightarrow> Face option" where
  "randomFaceAt r =
     (let i = \<lfloor>toDouble (r * of_nat (length faces))\<rfloor>
      in if 0 \<le> i \<and> i < int (length faces) then Some (faces ! nat i) else None)"

text \<open>The \<^verbatim>\<open>do ... while (randomFace === lastFace)\<close> loop; \<open>lastFace = None\<close> is
  \<^verbatim>\<open>null\<close>. It returns the face drawn and the random values left.\<close>

fun drawFace :: "Face option \<Rightarrow> rat list \<Rightarrow> shuffle_stop + Face \<times> rat list" where
  "drawFace lastFace [] = Inl RandomExhausted"
| "drawFace lastFace (r # rs) =
     (case randomFaceAt r of
        None \<Rightarrow> Inl FaceUndefined
      | Some randomFace \<Rightarrow>
          if Some randomFace = lastFace then drawFace lastFace rs
          else Inr (randomFace, rs))"

text \<open>The \<^verbatim>\<open>for\<close> loop that fills \<^verbatim>\<open>moves\<close>, with the number of iterations left as
  \<open>n\<close>: a face, then the direction \<^verbatim>\<open>Math.random() > 0.5\<close>.\<close>

fun generateMoves ::
  "nat \<Rightarrow> Face option \<Rightarrow> rat list \<Rightarrow> shuffle_stop + ShuffleMove list \<times> rat list" where
  "generateMoves 0 lastFace rs = Inr ([], rs)"
| "generateMoves (Suc n) lastFace rs =
     (case drawFace lastFace rs of
        Inl stop \<Rightarrow> Inl stop
      | Inr (randomFace, rs1) \<Rightarrow>
          (case rs1 of
             [] \<Rightarrow> Inl RandomExhausted
           | r # rs2 \<Rightarrow>
               (case generateMoves n (Some randomFace) rs2 of
                  Inl stop \<Rightarrow> Inl stop
                | Inr (moves, rest) \<Rightarrow>
                    Inr (\<lparr> face = randomFace, clockwise = (r > 1 / 2) \<rparr> # moves, rest))))"

text \<open>
  \<^verbatim>\<open>shuffleCube\<close>: the guard, the flag, and the moves it generates. The moves are then
  handed to timers, one every 600 ms, which are not part of this model; the result
  carries the list of moves in the order of their dispatch.
\<close>

definition shuffleCube :: "rat list \<Rightarrow> Engine \<Rightarrow> shuffle_stop + Engine \<times> ShuffleMove list" where
  "shuffleCube rs s =
     (if isShuffling s \<or> isAnimating s then Inr (s, [])
      else
        (case generateMoves shuffleMoves None rs of
           Inl stop \<Rightarrow> Inl stop
         | Inr (moves, rest) \<Rightarrow> Inr (s\<lparr> isShuffling := True \<rparr>, moves)))"

subsection \<open>Notions used to state the properties\<close>

text \<open>What a committed turn of face \<open>f\<close> does to one piece of the state it starts from.\<close>

definition turnPiece :: "Face \<Rightarrow> bool \<Rightarrow> CubePieceState \<Rightarrow> CubePieceState" where
  "turnPiece f cw piece =
     (if shouldRotate f piece then commitPiece f cw (position piece) piece else piece)"

text \<open>
  A state at rest, as far as the properties below need it: no turn in flight, and every
  piece with six facelets and a zero transient rotation. (The specification's states at
  rest have, in addition, integer positions in \<open>{-1, 0, 1}\<close>.)
\<close>

definition atRest :: "Engine \<Rightarrow> bool" where
  "atRest s \<longleftrightarrow>
     \<not> isAnimating s \<and> animation s = None \<and>
     list_all (\<lambda>piece. length (colors piece) = 6 \<and> rotation piece = (0, 0, 0)) (cubeState s)"

text \<open>
  The specification's face: each face is bound to one axis and one layer value on it.
  \<open>faceLayer\<close> and \<open>axisCoordinate\<close> follow the specification's words, for comparison with
  the selection of \<open>rotateFace\<close>.
\<close>

fun faceLayer :: "Face \<Rightarrow> int" where
  "faceLayer Front = 1"
| "faceLayer Back = - 1"
| "faceLayer Top = 1"
| "faceLayer Bottom = - 1"
| "faceLayer Right = 1"
| "faceLayer Left = - 1"

definition axisCoordinate :: "string \<Rightarrow> vec3 \<Rightarrow> rat" where
  "axisCoordinate axis p =
     (case p of (x, y, z) \<Rightarrow> if axis = ''x'' then x else if axis = ''y'' then y else z)"

definition onLayer :: "Face \<Rightarrow> CubePieceState \<Rightarrow> bool" where
  "onLayer f piece \<longleftrightarrow>
     round (axisCoordinate (getAxisForFace f) (position piece)) = faceLayer f"



text \<open>The facelet slots, in the order \<open>+x, -x, +y, -y, +z, -z\<close>: those parallel to an axis
  and those perpendicular to it.\<close>

definition parallelSlots :: "string \<Rightarrow> nat set" where
  "parallelSlots axis =
     (if axis = ''x'' then {0, 1} else if axis = ''y'' then {2, 3}
      else if axis = ''z'' then {4, 5} else {})"

definition perpendicularSlots :: "string \<Rightarrow> nat set" where
  "perpendicularSlots axis =
     (if axis = ''x'' then {2, 3, 4, 5} else if axis = ''y'' then {0, 1, 4, 5}
      else if axis = ''z'' then {0, 1, 2, 3} else {})"

text \<open>
  The indices \<^verbatim>\<open>rotateFace\<close> selects, and the engine states between the request of a turn
  of face \<open>f\<close> in state \<open>s\<close> and its completion: the animation in flight is that turn's,
  and its pieces differ from those of \<open>s\<close> in the position and the rotation of selected
  pieces only.
\<close>

definition selection :: "Face \<Rightarrow> Engine \<Rightarrow> nat list" where
  "selection f s = filter (\<lambda>i. shouldRotate f (cubeState s ! i)) [0..<length (cubeState s)]"

definition inFlight :: "Face \<Rightarrow> bool \<Rightarrow> Engine \<Rightarrow> Engine \<Rightarrow> bool" where
  "inFlight f cw s t \<longleftrightarrow>
     isShuffling t = isShuffling s \<and>
     (\<exists>a. animation t = Some a \<and> animFace a = f \<and> animClockwise a = cw
        \<and> rotatingPieces a = selection f s
        \<and> originalPositions a = map (\<lambda>i. position (cubeState s ! i)) (selection f s)
        \<and> length (newState a) = length (cubeState s)
        \<and> (\<forall>j<length (cubeState s).
              (j \<notin> set (selection f s) \<longrightarrow> newState a ! j = cubeState s ! j)
              \<and> pieceId (newState a ! j) = pieceId (cubeState s ! j)
              \<and> colors (newState a ! j) = colors (cubeState s ! j)
              \<and> animationRotation (newState a ! j) = animationRotation (cubeState s ! j)))"




text \<open>A state with pieces caught between layers, as the frames of an animation leave them.\<close>

definition midTurnExample :: Engine where
  "midTurnExample =
     \<lparr> cubeState =
         [ (newPiece 1 0 1)\<lparr> position := (7 / 10, 0, 9 / 10) \<rparr>,
           (newPiece 0 0 0)\<lparr> position := (0, 0, 49 / 100) \<rparr>,
           (newPiece 0 1 1)\<lparr> position := (0, 1, 1 / 2) \<rparr>,
           (newPiece 0 1 (- 1))\<lparr> position := (0, 1, - 3 / 2) \<rparr>,
           (newPiece 1 1 1)\<lparr> position := (1, 1, 3 / 2) \<rparr> ],
       isAnimating = False, isShuffling = False, animation = None \<rparr>"

section \<open>Properties of the permutation engine\<close>

lemma length_six_cases:
  assumes "length cs = 6"
  obtains a b c d e f where "cs = [a, b, c, d, e, f]"
proof -
  from assms obtain a r1 where 1: "cs = a # r1" "length r1 = 5"
    by (cases cs) auto
  then obtain b r2 where 2: "r1 = b # r2" "length r2 = 4"
    by (cases r1) auto
  then obtain c r3 where 3: "r2 = c # r3" "length r3 = 3"
    by (cases r2) auto
  then obtain d r4 where 4: "r3 = d # r4" "length r4 = 2"
    by (cases r3) auto
  then obtain e r5 where 5: "r4 = e # r5" "length r5 = 1"
    by (cases r4) auto
  then obtain f where 6: "r5 = [f]"
    by (cases r5) auto
  from 1 2 3 4 5 6 have "cs = [a, b, c, d, e, f]" by simp
  then show thesis by (rule that)
qed

text \<open>The six arrangements \<^verbatim>\<open>rotateColors\<close> produces on a six-element array.\<close>

lemma rotateColors_six:
  "rotateColors [a, b, c, d, e, f] ''x'' True = [a, b, f, e, c, d]"
  "rotateColors [a, b, c, d, e, f] ''x'' False = [a, b, e, f, d, c]"
  "rotateColors [a, b, c, d, e, f] ''y'' True = [f, e, c, d, a, b]"
  "rotateColors [a, b, c, d, e, f] ''y'' False = [e, f, c, d, b, a]"
  "rotateColors [a, b, c, d, e, f] ''z'' True = [d, c, a, b, e, f]"
  "rotateColors [a, b, c, d, e, f] ''z'' False = [c, d, b, a, e, f]"
  by (simp_all add: rotateColors_def arr_get_def arr_set_def)

lemma rotateColors_other_axis:
  "axis \<noteq> ''x'' \<Longrightarrow> axis \<noteq> ''y'' \<Longrightarrow> axis \<noteq> ''z'' \<Longrightarrow> rotateColors cs axis cw = cs"
  by (simp add: rotateColors_def)

text \<open>
  C3. For every coordinate triple \<open>(x, y, z)\<close> the position transform returns: on axis x,
  \<open>(x, -z, y)\<close> clockwise and \<open>(x, z, -y)\<close> counter-clockwise; on axis y, \<open>(z, y, -x)\<close>
  clockwise and \<open>(-z, y, x)\<close> counter-clockwise; on axis z, \<open>(-y, x, z)\<close> clockwise and
  \<open>(y, -x, z)\<close> counter-clockwise.
\<close>

theorem rotatePosition_table:
  "rotatePosition (x, y, z) ''x'' True = (x, - z, y)
   \<and> rotatePosition (x, y, z) ''x'' False = (x, z, - y)
   \<and> rotatePosition (x, y, z) ''y'' True = (z, y, - x)
   \<and> rotatePosition (x, y, z) ''y'' False = (- z, y, x)
   \<and> rotatePosition (x, y, z) ''z'' True = (- y, x, z)
   \<and> rotatePosition (x, y, z) ''z'' False = (y, - x, z)"
  by simp

text \<open>
  C2. For every coordinate triple \<open>p\<close> (the integer ones among them) and every axis, the
  position transform clockwise and then counter-clockwise on the same axis restores
  \<open>p\<close>; the same round trip holds for \<^verbatim>\<open>rotateColors\<close> on every array of six facelet
  colours.
\<close>

theorem rotate_round_trip:
  "rotatePosition (rotatePosition p axis True) axis False = p
   \<and> (length cs = 6 \<longrightarrow> rotateColors (rotateColors cs axis True) axis False = cs)"
proof
  show "rotatePosition (rotatePosition p axis True) axis False = p"
    by (cases p) simp
  show "length cs = 6 \<longrightarrow> rotateColors (rotateColors cs axis True) axis False = cs"
  proof
    assume "length cs = 6"
    then obtain a b c d e f where cs: "cs = [a, b, c, d, e, f]"
      by (rule length_six_cases)
    consider "axis = ''x''" | "axis = ''y''" | "axis = ''z''"
      | "axis \<noteq> ''x''" "axis \<noteq> ''y''" "axis \<noteq> ''z''"
      by blast
    then show "rotateColors (rotateColors cs axis True) axis False = cs"
      by cases (simp_all add: cs rotateColors_six rotateColors_other_axis)
  qed
qed

theorem rotate_round_trip_witness:
  "rotatePosition (rotatePosition (1, 0, - 1) ''y'' True) ''y'' False = (1, 0, - 1)
   \<and> length [Some ''r'', Some ''l'', Some ''t'', Some ''b'', Some ''f'', Some ''k''] = 6
   \<and> rotateColors (rotateColors [Some ''r'', Some ''l'', Some ''t'', Some ''b'', Some ''f'', Some ''k''] ''y'' True) ''y'' False
       = [Some ''r'', Some ''l'', Some ''t'', Some ''b'', Some ''f'', Some ''k'']"
  using rotate_round_trip [of "(1, 0, - 1)" "''y''"
      "[Some ''r'', Some ''l'', Some ''t'', Some ''b'', Some ''f'', Some ''k'']"]
  by simp

text \<open>
  C10. For every array of six colours, every axis and direction, the output of
  \<^verbatim>\<open>rotateColors\<close> is a rearrangement of the input: the multiset of the six colours is
  preserved.
\<close>

theorem rotateColors_mset:
  assumes "length cs = 6"
  shows "mset (rotateColors cs axis cw) = mset cs"
proof -
  from assms obtain a b c d e f where cs: "cs = [a, b, c, d, e, f]"
    by (rule length_six_cases)
  consider "axis = ''x''" | "axis = ''y''" | "axis = ''z''"
    | "axis \<noteq> ''x''" "axis \<noteq> ''y''" "axis \<noteq> ''z''"
    by blast
  then show ?thesis
    by cases (cases cw; simp add: cs rotateColors_six rotateColors_other_axis add_mset_commute)+
qed

theorem rotateColors_mset_witness:
  "length [Some ''r'', Some ''l'', Some ''t'', Some ''b'', Some ''f'', Some ''k''] = 6
   \<and> mset (rotateColors [Some ''r'', Some ''l'', Some ''t'', Some ''b'', Some ''f'', Some ''k'']
        ''z'' False)
     = mset [Some ''r'', Some ''l'', Some ''t'', Some ''b'', Some ''f'', Some ''k'']"
  using rotateColors_mset
    [of "[Some ''r'', Some ''l'', Some ''t'', Some ''b'', Some ''f'', Some ''k'']" "''z''" False]
  by simp

lemma six_list_all:
  assumes "\<And>a b c d e f. P [a, b, c, d, e, f]"
  shows "\<forall>cs. length cs = 6 \<longrightarrow> P cs"
proof (intro allI impI)
  fix cs :: "'a list"
  assume "length cs = 6"
  then obtain a b c d e f where "cs = [a, b, c, d, e, f]"
    by (rule length_six_cases)
  with assms show "P cs" by simp
qed

text \<open>
  C5. For every axis and direction there is one map \<open>\<sigma>\<close> of slots such that, on every
  array of six colours, slot \<open>i\<close> of the output of \<^verbatim>\<open>rotateColors\<close> holds the colour of
  slot \<open>\<sigma> i\<close> of the input; \<open>\<sigma>\<close> fixes the two slots parallel to the axis (0, 1 for x; 2, 3
  for y; 4, 5 for z) and moves the four perpendicular slots among themselves in a single
  4-cycle (no slot comes back after one or two steps, every slot after four).
\<close>

theorem rotateColors_four_cycle:
  assumes "axis = ''x'' \<or> axis = ''y'' \<or> axis = ''z''"
  shows "\<exists>\<sigma>. (\<forall>cs. length cs = 6 \<longrightarrow>
                 rotateColors cs axis cw = map (\<lambda>i. cs ! \<sigma> i) [0, 1, 2, 3, 4, 5])
            \<and> (\<forall>i\<in>parallelSlots axis. \<sigma> i = i)
            \<and> (\<forall>i\<in>perpendicularSlots axis.
                  \<sigma> i \<in> perpendicularSlots axis \<and> \<sigma> i \<noteq> i \<and> \<sigma> (\<sigma> i) \<noteq> i
                  \<and> \<sigma> (\<sigma> (\<sigma> (\<sigma> i))) = i)"
proof -
  from assms consider "axis = ''x''" "cw" | "axis = ''x''" "\<not> cw"
    | "axis = ''y''" "cw" | "axis = ''y''" "\<not> cw"
    | "axis = ''z''" "cw" | "axis = ''z''" "\<not> cw"
    by blast
  then show ?thesis
  proof cases
    case 1
    show ?thesis
      apply (rule exI [of _ "\<lambda>i. [0, 1, 5, 4, 2, 3] ! i"])
      apply (intro conjI six_list_all)
      using 1 by (simp_all add: rotateColors_six parallelSlots_def perpendicularSlots_def)
  next
    case 2
    show ?thesis
      apply (rule exI [of _ "\<lambda>i. [0, 1, 4, 5, 3, 2] ! i"])
      apply (intro conjI six_list_all)
      using 2 by (simp_all add: rotateColors_six parallelSlots_def perpendicularSlots_def)
  next
    case 3
    show ?thesis
      apply (rule exI [of _ "\<lambda>i. [5, 4, 2, 3, 0, 1] ! i"])
      apply (intro conjI six_list_all)
      using 3 by (simp_all add: rotateColors_six parallelSlots_def perpendicularSlots_def)
  next
    case 4
    show ?thesis
      apply (rule exI [of _ "\<lambda>i. [4, 5, 2, 3, 1, 0] ! i"])
      apply (intro conjI six_list_all)
      using 4 by (simp_all add: rotateColors_six parallelSlots_def perpendicularSlots_def)
  next
    case 5
    show ?thesis
      apply (rule exI [of _ "\<lambda>i. [3, 2, 0, 1, 4, 5] ! i"])
      apply (intro conjI six_list_all)
      using 5 by (simp_all add: rotateColors_six parallelSlots_def perpendicularSlots_def)
  next
    case 6
    show ?thesis
      apply (rule exI [of _ "\<lambda>i. [2, 3, 1, 0, 4, 5] ! i"])
      apply (intro conjI six_list_all)
      using 6 by (simp_all add: rotateColors_six parallelSlots_def perpendicularSlots_def)
  qed
qed

theorem rotateColors_four_cycle_witness:
  "(''x'' = ''x'' \<or> ''x'' = ''y'' \<or> ''x'' = ''z'')
   \<and> (\<exists>\<sigma>. (\<forall>cs :: color slot list. length cs = 6 \<longrightarrow>
                 rotateColors cs ''x'' True = map (\<lambda>i. cs ! \<sigma> i) [0, 1, 2, 3, 4, 5])
            \<and> (\<forall>i\<in>parallelSlots ''x''. \<sigma> i = i)
            \<and> (\<forall>i\<in>perpendicularSlots ''x''.
                  \<sigma> i \<in> perpendicularSlots ''x'' \<and> \<sigma> i \<noteq> i \<and> \<sigma> (\<sigma> i) \<noteq> i
                  \<and> \<sigma> (\<sigma> (\<sigma> (\<sigma> i))) = i))"
proof -
  have h: "''x'' = ''x'' \<or> ''x'' = ''y'' \<or> ''x'' = ''z''" by simp
  from h rotateColors_four_cycle [OF h, of True] show ?thesis by (rule conjI)
qed

section \<open>Properties of the turn animator\<close>

text \<open>A completed turn, piece by piece.\<close>

lemma length_forEachPiece: "length (forEachPiece body sel k st) = length st"
  by (induction sel arbitrary: k st) auto

lemma forEachPiece_nth_other:
  "j \<notin> set sel \<Longrightarrow> forEachPiece body sel k st ! j = st ! j"
  by (induction sel arbitrary: k st) auto

lemma forEachPiece_nth_selected:
  "distinct sel \<Longrightarrow> \<forall>i\<in>set sel. i < length st \<Longrightarrow> m < length sel \<Longrightarrow>
   forEachPiece body sel k st ! (sel ! m) = body (st ! (sel ! m)) (k + m)"
proof (induction sel arbitrary: k st m)
  case Nil
  then show ?case by simp
next
  case (Cons i rest)
  show ?case
  proof (cases m)
    case 0
    with Cons.prems show ?thesis
      by (simp add: forEachPiece_nth_other)
  next
    case (Suc m')
    from Cons.prems Suc have neq: "rest ! m' \<noteq> i" and m': "m' < length rest"
      by auto
    from Cons.prems have "distinct rest" "\<forall>j\<in>set rest. j < length (st[i := body (st ! i) k])"
      by auto
    from Cons.IH [OF this m'] neq Suc show ?thesis
      by simp
  qed
qed

lemma turn_cubeState:
  assumes "\<not> isAnimating s"
  shows "cubeState (turn f cw s) = map (turnPiece f cw) (cubeState s)"
proof (rule nth_equalityI)
  let ?st = "cubeState s"
  let ?sel = "filter (\<lambda>i. shouldRotate f (?st ! i)) [0..<length ?st]"
  let ?body = "\<lambda>piece index. commitPiece f cw (map (\<lambda>i. position (?st ! i)) ?sel ! index) piece"
  have cs: "cubeState (turn f cw s) = forEachPiece ?body ?sel 0 ?st"
    using assms by (simp add: turn_def rotateFace_def animateComplete_def Let_def)
  show "length (cubeState (turn f cw s)) = length (map (turnPiece f cw) ?st)"
    by (simp add: cs length_forEachPiece)
  fix j assume "j < length (cubeState (turn f cw s))"
  then have j: "j < length ?st" by (simp add: cs length_forEachPiece)
  show "cubeState (turn f cw s) ! j = map (turnPiece f cw) ?st ! j"
  proof (cases "shouldRotate f (?st ! j)")
    case True
    with j have "j \<in> set ?sel" by simp
    then obtain m where m: "m < length ?sel" "?sel ! m = j"
      unfolding in_set_conv_nth by blast
    have "forEachPiece ?body ?sel 0 ?st ! (?sel ! m) = ?body (?st ! (?sel ! m)) (0 + m)"
      by (rule forEachPiece_nth_selected) (use m in auto)
    with m True j show ?thesis
      by (simp add: cs turnPiece_def)
  next
    case False
    then have "j \<notin> set ?sel" by simp
    with False j show ?thesis
      by (simp add: cs forEachPiece_nth_other turnPiece_def)
  qed
qed

lemma turn_engine:
  assumes "\<not> isAnimating s"
  shows "turn f cw s = s\<lparr> cubeState := map (turnPiece f cw) (cubeState s), isAnimating := False, animation := None \<rparr>"
proof -
  have "turn f cw s = s\<lparr> cubeState := cubeState (turn f cw s), isAnimating := False, animation := None \<rparr>"
    using assms by (simp add: turn_def rotateFace_def animateComplete_def Let_def)
  then show ?thesis by (simp add: turn_cubeState [OF assms])
qed

lemma shouldRotate_commitPiece:
  "shouldRotate f (commitPiece f cw (position p) p) = shouldRotate f p"
  by (cases f; cases cw; cases "position p") (simp_all add: shouldRotate_def commitPiece_def)

lemma turnPiece_four:
  assumes "length (colors p) = 6" "rotation p = (0, 0, 0)"
  shows "turnPiece f cw (turnPiece f cw (turnPiece f cw (turnPiece f cw p))) = p"
proof (cases "shouldRotate f p")
  case False
  then show ?thesis by (simp add: turnPiece_def)
next
  case True
  from assms(1) obtain a b c d e g where cs: "colors p = [a, b, c, d, e, g]"
    by (rule length_six_cases)
  obtain x y z where pos: "position p = (x, y, z)"
    by (cases "position p")
  have step: "\<And>q. shouldRotate f q \<Longrightarrow> turnPiece f cw q = commitPiece f cw (position q) q"
    by (simp add: turnPiece_def)
  have keep: "\<And>q. shouldRotate f q \<Longrightarrow> shouldRotate f (commitPiece f cw (position q) q)"
    by (simp add: shouldRotate_commitPiece)
  define q1 where "q1 = commitPiece f cw (position p) p"
  define q2 where "q2 = commitPiece f cw (position q1) q1"
  define q3 where "q3 = commitPiece f cw (position q2) q2"
  have "turnPiece f cw (turnPiece f cw (turnPiece f cw (turnPiece f cw p)))
      = commitPiece f cw (position q3) q3"
    using True by (simp add: step keep q1_def q2_def q3_def)
  also have "\<dots> = p"
    unfolding q3_def q2_def q1_def using cs pos assms(2)
    by (cases f; cases cw) (simp_all add: commitPiece_def colorClockwise_def rotateColors_six)
  finally show ?thesis .
qed

text \<open>
  C1. For every face, every direction and every engine state at rest, four consecutive
  turns of that face in that direction, each awaited to completion, give back the state
  they started from: every piece's position and facelet colours (and every other field of
  the engine state) are exactly as before the first turn.
\<close>

theorem four_turns_identity:
  assumes "atRest s"
  shows "turn f cw (turn f cw (turn f cw (turn f cw s))) = s"
proof -
  from assms have idle: "\<not> isAnimating s" "animation s = None"
    and pieces: "\<forall>p\<in>set (cubeState s). length (colors p) = 6 \<and> rotation p = (0, 0, 0)"
    by (simp_all add: atRest_def list_all_iff)
  have after: "\<And>t. \<not> isAnimating t \<Longrightarrow> \<not> isAnimating (turn f cw t)"
    by (simp add: turn_engine)
  have "cubeState (turn f cw (turn f cw (turn f cw (turn f cw s))))
      = map (\<lambda>p. turnPiece f cw (turnPiece f cw (turnPiece f cw (turnPiece f cw p)))) (cubeState s)"
    using idle(1) by (simp add: turn_cubeState after comp_def)
  also have "\<dots> = cubeState s"
    using pieces by (simp add: map_idI turnPiece_four)
  finally have cube: "cubeState (turn f cw (turn f cw (turn f cw (turn f cw s)))) = cubeState s" .
  have "turn f cw (turn f cw (turn f cw (turn f cw s)))
      = s\<lparr> cubeState := cubeState (turn f cw (turn f cw (turn f cw (turn f cw s)))),
            isAnimating := False, animation := None \<rparr>"
    using idle(1) by (simp add: turn_engine after)
  with cube idle show ?thesis by simp
qed

lemma atRest_initialEngine: "atRest initialEngine"
  by (simp add: atRest_def initialEngine_def initializeCube_def newPiece_def)

lemma length_rotateColors:
  assumes "length cs = 6"
  shows "length (rotateColors cs axis cw) = 6"
proof -
  from assms obtain a b c d e f where cs: "cs = [a, b, c, d, e, f]"
    by (rule length_six_cases)
  consider "axis = ''x''" | "axis = ''y''" | "axis = ''z''"
    | "axis \<noteq> ''x''" "axis \<noteq> ''y''" "axis \<noteq> ''z''"
    by blast
  then show ?thesis
    by cases (cases cw; simp add: cs rotateColors_six rotateColors_other_axis)+
qed

lemma atRest_turn:
  assumes "atRest s"
  shows "atRest (turn f cw s)"
proof -
  from assms have idle: "\<not> isAnimating s" "animation s = None"
    and pieces: "\<forall>p\<in>set (cubeState s). length (colors p) = 6 \<and> rotation p = (0, 0, 0)"
    by (simp_all add: atRest_def list_all_iff)
  have "\<forall>p\<in>set (cubeState s).
          length (colors (turnPiece f cw p)) = 6 \<and> rotation (turnPiece f cw p) = (0, 0, 0)"
    using pieces by (simp add: turnPiece_def commitPiece_def length_rotateColors)
  then show ?thesis
    using idle by (simp add: atRest_def turn_engine list_all_iff)
qed

theorem four_turns_identity_witness:
  "atRest (turn Right False (turn Top True initialEngine))
   \<and> turn Front True (turn Front True (turn Front True (turn Front True
        (turn Right False (turn Top True initialEngine)))))
     = turn Right False (turn Top True initialEngine)"
proof -
  have h: "atRest (turn Right False (turn Top True initialEngine))"
    by (intro atRest_turn atRest_initialEngine)
  from h four_turns_identity [OF h, of Front True] show ?thesis by (rule conjI)
qed



section \<open>Properties of the cube state\<close>

lemma initializeCube_list: "initializeCube = 
  [newPiece (-1) (-1) (-1), newPiece (-1) (-1) 0, newPiece (-1) (-1) 1,
   newPiece (-1) 0 (-1), newPiece (-1) 0 0, newPiece (-1) 0 1,
   newPiece (-1) 1 (-1), newPiece (-1) 1 0, newPiece (-1) 1 1,
   newPiece 0 (-1) (-1), newPiece 0 (-1) 0, newPiece 0 (-1) 1,
   newPiece 0 0 (-1), newPiece 0 0 0, newPiece 0 0 1,
   newPiece 0 1 (-1), newPiece 0 1 0, newPiece 0 1 1,
   newPiece 1 (-1) (-1), newPiece 1 (-1) 0, newPiece 1 (-1) 1,
   newPiece 1 0 (-1), newPiece 1 0 0, newPiece 1 0 1,
   newPiece 1 1 (-1), newPiece 1 1 0, newPiece 1 1 1]"
  by (simp add: initializeCube_def)

lemma position_newPiece: "position (newPiece x y z) = (of_int x, of_int y, of_int z)"
  by (simp add: newPiece_def)

lemma positions_initializeCube:
  "map position initializeCube =
     [(-1,-1,-1), (-1,-1,0), (-1,-1,1), (-1,0,-1), (-1,0,0), (-1,0,1), (-1,1,-1), (-1,1,0), (-1,1,1),
      (0,-1,-1), (0,-1,0), (0,-1,1), (0,0,-1), (0,0,0), (0,0,1), (0,1,-1), (0,1,0), (0,1,1),
      (1,-1,-1), (1,-1,0), (1,-1,1), (1,0,-1), (1,0,0), (1,0,1), (1,1,-1), (1,1,0), (1,1,1)]"
  by (simp add: initializeCube_list position_newPiece)

lemma distinct_positions: "distinct (map position initializeCube)"
  unfolding positions_initializeCube by simp

lemma set_positions: "set (map position initializeCube) = {- 1, 0, 1} \<times> {- 1, 0, 1} \<times> {- 1, 0, 1}"
  unfolding positions_initializeCube by auto

lemma colors_initializeCube:
  "\<forall>piece\<in>set initializeCube.
     (case position piece of (x, y, z) \<Rightarrow>
        colors piece =
          [ Some (if x = 1 then COLORS_right else ''#333333''),
            Some (if x = - 1 then COLORS_left else ''#333333''),
            Some (if y = 1 then COLORS_top else ''#333333''),
            Some (if y = - 1 then COLORS_bottom else ''#333333''),
            Some (if z = 1 then COLORS_front else ''#333333''),
            Some (if z = - 1 then COLORS_back else ''#333333'') ])
     \<and> rotation piece = (0, 0, 0)"
  unfolding initializeCube_list by (simp add: newPiece_def)


text \<open>
  C7. Whatever the engine state before, \<^verbatim>\<open>resetCube\<close> leaves the cube state of a fresh
  initialisation: 27 pieces, one at each coordinate triple of \<open>{-1, 0, 1}\<^sup>3\<close>, each with
  the right colour on slot 0 iff \<open>x = 1\<close>, the left colour on slot 1 iff \<open>x = -1\<close>, the top
  colour on slot 2 iff \<open>y = 1\<close>, the bottom colour on slot 3 iff \<open>y = -1\<close>, the front
  colour on slot 4 iff \<open>z = 1\<close>, the back colour on slot 5 iff \<open>z = -1\<close>, the neutral
  colour \<^verbatim>\<open>#333333\<close> on every other slot, and a zero rotation.
\<close>

theorem reset_is_fresh:
  "cubeState (resetCube s) = cubeState initialEngine
   \<and> length (cubeState (resetCube s)) = 27
   \<and> distinct (map position (cubeState (resetCube s)))
   \<and> set (map position (cubeState (resetCube s))) = {- 1, 0, 1} \<times> {- 1, 0, 1} \<times> {- 1, 0, 1}
   \<and> (\<forall>piece\<in>set (cubeState (resetCube s)).
        (case position piece of (x, y, z) \<Rightarrow>
           colors piece =
             [ Some (if x = 1 then COLORS_right else ''#333333''),
               Some (if x = - 1 then COLORS_left else ''#333333''),
               Some (if y = 1 then COLORS_top else ''#333333''),
               Some (if y = - 1 then COLORS_bottom else ''#333333''),
               Some (if z = 1 then COLORS_front else ''#333333''),
               Some (if z = - 1 then COLORS_back else ''#333333'') ])
        \<and> rotation piece = (0, 0, 0))"
proof -
  have cube: "cubeState (resetCube s) = initializeCube"
    by (simp add: resetCube_def)
  have fresh: "cubeState initialEngine = initializeCube"
    by (simp add: initialEngine_def)
  have len: "length initializeCube = 27"
    by (simp add: initializeCube_list)
  show ?thesis
    unfolding cube fresh
    by (intro conjI refl len distinct_positions set_positions colors_initializeCube)
qed

theorem reset_is_fresh_witness:
  "newPiece 1 1 (- 1) \<in> set (cubeState (resetCube (rotateFace Front True (turn Top True initialEngine))))
   \<and> position (newPiece 1 1 (- 1)) = (1, 1, - 1)
   \<and> colors (newPiece 1 1 (- 1))
       = [Some ''#0000ff'', Some ''#333333'', Some ''#ffff00'', Some ''#333333'',
          Some ''#333333'', Some ''#ffa500'']
   \<and> cubeState (resetCube (rotateFace Front True (turn Top True initialEngine)))
       = cubeState initialEngine"
proof -
  let ?s = "rotateFace Front True (turn Top True initialEngine)"
  have mem: "newPiece 1 1 (- 1) \<in> set (cubeState (resetCube ?s))"
    by (simp add: resetCube_def initializeCube_list)
  have pos: "position (newPiece 1 1 (- 1)) = (1, 1, - 1)"
    by (simp add: newPiece_def)
  from reset_is_fresh [of ?s]
  have all: "\<forall>piece\<in>set (cubeState (resetCube ?s)).
        (case position piece of (x, y, z) \<Rightarrow>
           colors piece =
             [ Some (if x = 1 then COLORS_right else ''#333333''),
               Some (if x = - 1 then COLORS_left else ''#333333''),
               Some (if y = 1 then COLORS_top else ''#333333''),
               Some (if y = - 1 then COLORS_bottom else ''#333333''),
               Some (if z = 1 then COLORS_front else ''#333333''),
               Some (if z = - 1 then COLORS_back else ''#333333'') ])
        \<and> rotation piece = (0, 0, 0)"
    by (elim conjE)
  from reset_is_fresh [of ?s]
  have same: "cubeState (resetCube ?s) = cubeState initialEngine"
    by (elim conjE)
  from bspec [OF all mem] pos
  have "colors (newPiece 1 1 (- 1))
       = [Some ''#0000ff'', Some ''#333333'', Some ''#ffff00'', Some ''#333333'',
          Some ''#333333'', Some ''#ffa500'']"
    by (simp add: COLORS_right_def COLORS_top_def COLORS_back_def)
  with mem pos same show ?thesis by (intro conjI)
qed

section \<open>Properties of the face selector and of the committed turn\<close>

lemma Math_round_eq_iff:
  "Math_round x = n \<longleftrightarrow> of_int n - 1 / 2 \<le> x \<and> x < of_int n + 1 / 2"
  by (auto simp: Math_round_def floor_eq_iff)

lemma shouldRotate_onLayer: "shouldRotate f piece = onLayer f piece"
  by (cases f; cases "position piece")
     (simp_all add: shouldRotate_def onLayer_def axisCoordinate_def Math_round_def round_def)

text \<open>
  C6. For every face and every cube state, the pieces a turn request selects are exactly
  those whose position component on the face's axis, rounded to the nearest integer,
  equals the face's layer value (\<open>+1\<close> or \<open>-1\<close>): the indices selected are the indices of
  those pieces, and the pieces selected are those pieces in the order of the state. The
  comparison is on the rounded component, so a piece between layers is selected too.
\<close>

theorem selection_by_rounding:
  assumes "\<not> isAnimating s"
  shows "\<exists>a. animation (rotateFace f cw s) = Some a
            \<and> set (rotatingPieces a) = {i. i < length (cubeState s) \<and> onLayer f (cubeState s ! i)}
            \<and> map (\<lambda>i. newState a ! i) (rotatingPieces a) = filter (onLayer f) (cubeState s)"
proof -
  let ?st = "cubeState s"
  let ?sel = "filter (\<lambda>i. shouldRotate f (?st ! i)) [0..<length ?st]"
  have "filter (onLayer f) ?st = filter (onLayer f) (map (\<lambda>i. ?st ! i) [0..<length ?st])"
    by (simp add: map_nth)
  also have "\<dots> = map (\<lambda>i. ?st ! i) ?sel"
    by (simp add: filter_map comp_def shouldRotate_onLayer)
  finally have pieces: "map (\<lambda>i. ?st ! i) ?sel = filter (onLayer f) ?st" ..
  have indices: "set ?sel = {i. i < length ?st \<and> onLayer f (?st ! i)}"
    by (auto simp: shouldRotate_onLayer)
  from assms pieces indices show ?thesis
    by (simp add: rotateFace_def Let_def)
qed

theorem selection_by_rounding_witness:
  "\<not> isAnimating midTurnExample
   \<and> (\<exists>a. animation (rotateFace Front True midTurnExample) = Some a
          \<and> set (rotatingPieces a)
              = {i. i < length (cubeState midTurnExample) \<and> onLayer Front (cubeState midTurnExample ! i)}
          \<and> map (\<lambda>i. newState a ! i) (rotatingPieces a)
              = filter (onLayer Front) (cubeState midTurnExample))
   \<and> filter (onLayer Front) (cubeState midTurnExample)
       = [ (newPiece 1 0 1)\<lparr> position := (7 / 10, 0, 9 / 10) \<rparr>,
           (newPiece 0 1 1)\<lparr> position := (0, 1, 1 / 2) \<rparr> ]"
proof -
  have h: "\<not> isAnimating midTurnExample"
    by (simp add: midTurnExample_def)
  have ex: "filter (onLayer Front) (cubeState midTurnExample)
       = [ (newPiece 1 0 1)\<lparr> position := (7 / 10, 0, 9 / 10) \<rparr>,
           (newPiece 0 1 1)\<lparr> position := (0, 1, 1 / 2) \<rparr> ]"
    by (simp add: midTurnExample_def onLayer_def axisCoordinate_def round_def floor_eq_iff)
  from h selection_by_rounding [OF h, of Front True] ex show ?thesis by (intro conjI)
qed

text \<open>
  C4. When a turn is committed, the colour transform of every selected piece runs with the
  direction \<open>\<not> clockwise\<close> for the faces top and bottom and with \<open>clockwise\<close> for the other
  four faces, \<open>clockwise\<close> being the flag passed to \<^verbatim>\<open>rotateFace\<close>; the position
  transform runs with \<open>clockwise\<close> itself for all six.
\<close>

theorem color_direction_of_turn:
  assumes "\<not> isAnimating s" and "i < length (cubeState s)"
    and "shouldRotate f (cubeState s ! i)"
  shows "colors (cubeState (turn f cw s) ! i)
           = rotateColors (colors (cubeState s ! i)) (getAxisForFace f)
               (if f = Top \<or> f = Bottom then \<not> cw else cw)
         \<and> position (cubeState (turn f cw s) ! i)
           = rotatePosition (position (cubeState s ! i)) (getAxisForFace f) cw"
  using assms
  by (simp add: turn_cubeState turnPiece_def commitPiece_def colorClockwise_def)

theorem color_direction_of_turn_witness:
  "\<not> isAnimating initialEngine \<and> 26 < length (cubeState initialEngine)
   \<and> shouldRotate Top (cubeState initialEngine ! 26)
   \<and> colors (cubeState (turn Top True initialEngine) ! 26)
       = rotateColors (colors (cubeState initialEngine ! 26)) ''y'' False
   \<and> position (cubeState (turn Top True initialEngine) ! 26)
       = rotatePosition (position (cubeState initialEngine ! 26)) ''y'' True"
proof -
  have h1: "\<not> isAnimating initialEngine"
    by (simp add: initialEngine_def)
  have h2: "26 < length (cubeState initialEngine)"
    by (simp add: initialEngine_def initializeCube_list)
  have h3: "shouldRotate Top (cubeState initialEngine ! 26)"
    by (simp add: initialEngine_def initializeCube_list shouldRotate_def newPiece_def
        Math_round_eq_iff)
  from color_direction_of_turn [OF h1 h2 h3, of True]
  have "colors (cubeState (turn Top True initialEngine) ! 26)
       = rotateColors (colors (cubeState initialEngine ! 26)) ''y'' False
     \<and> position (cubeState (turn Top True initialEngine) ! 26)
       = rotatePosition (position (cubeState initialEngine ! 26)) ''y'' True"
    by simp
  with h1 h2 h3 show ?thesis by (intro conjI) simp_all
qed



section \<open>Calls through the closure of an earlier render\<close>

lemma rotateFace_as_call:
  "rotateFace f cw s =
     (case rotateFaceCall (isAnimating s) (cubeState s) f cw of
        None \<Rightarrow> s
      | Some a \<Rightarrow> s\<lparr> isAnimating := True, animation := Some a \<rparr>)"
  by (simp add: rotateFace_def rotateFaceCall_def Let_def)

lemma animateComplete_as_commit:
  "animation s = Some a \<Longrightarrow>
   animateComplete s
     = s\<lparr> cubeState := commitAnimation a (newState a), isAnimating := False,
          animation := None \<rparr>"
  by (simp add: animateComplete_def commitAnimation_def Let_def)

text \<open>The guard returns when the closure captured \<^verbatim>\<open>isAnimating = true\<close>, and only then.\<close>

lemma rotateFaceCall_guard:
  "rotateFaceCall capturedIsAnimating st f cw = None \<longleftrightarrow> capturedIsAnimating"
  by (simp add: rotateFaceCall_def Let_def)

text \<open>The completion of an accepted call, piece by piece: \<open>st\<close> are the pieces at the
  call, \<open>st'\<close> the same pieces at the completion.\<close>

lemma commitAnimation_nth:
  assumes a: "rotateFaceCall False st f cw = Some a"
    and len: "length st' = length st" and j: "j < length st"
  shows "commitAnimation a st' ! j
     = (if shouldRotate f (st ! j) then commitPiece f cw (position (st ! j)) (st' ! j)
        else st' ! j)"
proof -
  let ?sel = "filter (\<lambda>i. shouldRotate f (st ! i)) [0..<length st]"
  let ?body = "\<lambda>piece index. commitPiece f cw (map (\<lambda>i. position (st ! i)) ?sel ! index) piece"
  from a have c: "commitAnimation a st' = forEachPiece ?body ?sel 0 st'"
    by (auto simp: rotateFaceCall_def commitAnimation_def Let_def)
  show ?thesis
  proof (cases "shouldRotate f (st ! j)")
    case True
    with j have "j \<in> set ?sel" by simp
    then obtain m where m: "m < length ?sel" "?sel ! m = j"
      unfolding in_set_conv_nth by blast
    have "forEachPiece ?body ?sel 0 st' ! (?sel ! m) = ?body (st' ! (?sel ! m)) (0 + m)"
      by (rule forEachPiece_nth_selected) (use m len in auto)
    with m True show ?thesis by (simp add: c)
  next
    case False
    then have "j \<notin> set ?sel" by simp
    with False show ?thesis by (simp add: c forEachPiece_nth_other)
  qed
qed

text \<open>\<^verbatim>\<open>shuffleCube\<close> generates moves only in a render whose \<^verbatim>\<open>isAnimating\<close> is false: that
  is the value the \<^verbatim>\<open>rotateFace\<close> of its timers captured.\<close>

lemma shuffleCube_captures_idle:
  "shuffleCube rs s = Inr (s', ms) \<Longrightarrow> ms \<noteq> [] \<Longrightarrow> \<not> isAnimating s"
  by (auto simp: shuffleCube_def split: if_splits)

lemma length_commitAnimation: "length (commitAnimation a st) = length st"
  by (simp add: commitAnimation_def length_forEachPiece)

lemma top_layer_initializeCube:
  "filter (\<lambda>i. shouldRotate Top (initializeCube ! i)) [0..<length initializeCube]
     = [6, 7, 8, 15, 16, 17, 24, 25, 26]"
  by code_simp

text \<open>
  C8. The guard of \<^verbatim>\<open>rotateFace\<close> reads the \<^verbatim>\<open>isAnimating\<close> its closure captured, so a
  call with a turn in progress is not always a no-op. From the solved cube, a call for the
  front face through a closure that captured \<^verbatim>\<open>isAnimating = false\<close> is accepted: React's
  \<^verbatim>\<open>isAnimating\<close> becomes true and the animation \<open>a1\<close> is in flight. A second call for the
  top face through the same closure (the timers of \<^verbatim>\<open>shuffleCube\<close> all hold one closure,
  of the render in which the shuffle passed its own guard) is accepted too: it selects
  the nine pieces of the top layer and schedules \<open>a2\<close>. When \<open>a1\<close> and then \<open>a2\<close>
  complete, the pieces 8 and 20 are both at \<open>(1, 1, 1)\<close>; with the second call rejected,
  piece 8 would be at \<open>(-1, -1, 1)\<close>.
\<close>

theorem stale_closure_call_accepted:
  "\<exists>a1 a2. rotateFaceCall False initializeCube Front True = Some a1
     \<and> rotateFace Front True initialEngine
         = initialEngine\<lparr> isAnimating := True, animation := Some a1 \<rparr>
     \<and> rotateFaceCall False initializeCube Top True = Some a2
     \<and> rotatingPieces a2 = [6, 7, 8, 15, 16, 17, 24, 25, 26]
     \<and> position (commitAnimation a1 initializeCube ! 8) = (- 1, - 1, 1)
     \<and> position (commitAnimation a1 initializeCube ! 20) = (1, 1, 1)
     \<and> position (commitAnimation a2 (commitAnimation a1 initializeCube) ! 8) = (1, 1, 1)
     \<and> position (commitAnimation a2 (commitAnimation a1 initializeCube) ! 20) = (1, 1, 1)"
proof -
  obtain a1 where a1: "rotateFaceCall False initializeCube Front True = Some a1"
    by (simp add: rotateFaceCall_def Let_def)
  obtain a2 where a2: "rotateFaceCall False initializeCube Top True = Some a2"
    by (simp add: rotateFaceCall_def Let_def)
  have first: "rotateFace Front True initialEngine
      = initialEngine\<lparr> isAnimating := True, animation := Some a1 \<rparr>"
    using a1 by (simp add: rotateFace_as_call initialEngine_def)
  from a2 have sel: "rotatingPieces a2 = [6, 7, 8, 15, 16, 17, 24, 25, 26]"
    by (auto simp: rotateFaceCall_def Let_def top_layer_initializeCube)
  have p8: "initializeCube ! 8 = newPiece (- 1) 1 1" and p20: "initializeCube ! 20 = newPiece 1 (- 1) 1"
    by (simp_all add: initializeCube_list)
  have len: "8 < length initializeCube" "20 < length initializeCube"
    by (simp_all add: initializeCube_list)
  have front: "shouldRotate Front (newPiece (- 1) 1 1)" "shouldRotate Front (newPiece 1 (- 1) 1)"
    and top: "shouldRotate Top (newPiece (- 1) 1 1)" "\<not> shouldRotate Top (newPiece 1 (- 1) 1)"
    by (simp_all add: shouldRotate_def newPiece_def Math_round_eq_iff)
  have one8: "position (commitAnimation a1 initializeCube ! 8) = (- 1, - 1, 1)"
    using commitAnimation_nth [OF a1 refl len(1)] front
    by (simp add: p8 commitPiece_def position_newPiece)
  have one20: "position (commitAnimation a1 initializeCube ! 20) = (1, 1, 1)"
    using commitAnimation_nth [OF a1 refl len(2)] front
    by (simp add: p20 commitPiece_def position_newPiece)
  have two8: "position (commitAnimation a2 (commitAnimation a1 initializeCube) ! 8) = (1, 1, 1)"
    using commitAnimation_nth [OF a2 length_commitAnimation len(1), of a1] top
    by (simp add: p8 commitPiece_def position_newPiece)
  have two20: "position (commitAnimation a2 (commitAnimation a1 initializeCube) ! 20) = (1, 1, 1)"
    using commitAnimation_nth [OF a2 length_commitAnimation len(2), of a1] top one20
    by (simp add: p20)
  from a1 first a2 sel one8 one20 two8 two20 show ?thesis by blast
qed


section \<open>Properties of the scrambler\<close>

















text \<open>At the double nearest to \<open>2/3\<close> the exact product is below \<open>4\<close> and the product of
  doubles is \<open>4\<close>: the face drawn is \<^verbatim>\<open>faces[4]\<close>.\<close>

lemma randomFaceAt_two_thirds:
  "toDouble (6004799503160661 / 2 ^ 53) = 6004799503160661 / 2 ^ 53"
  "6004799503160661 / 2 ^ 53 * 6 < (4::rat)"
  "randomFaceAt (6004799503160661 / 2 ^ 53) = Some Right"
  by (code_simp, simp, code_simp)


















section \<open>The frames of an animation\<close>

text \<open>
  Whatever the frames between the request and the completion write, the completed turn is
  the same: the completion takes the position from the snapshot, the colours from the
  piece, which no frame touches, and resets the rotation.
\<close>

lemma selection_props:
  "distinct (selection f s)" "\<forall>i\<in>set (selection f s). i < length (cubeState s)"
  by (auto simp: selection_def)

lemma inFlight_rotateFace:
  assumes "\<not> isAnimating s"
  shows "inFlight f cw s (rotateFace f cw s)"
  using assms by (simp add: inFlight_def rotateFace_def Let_def selection_def)

lemma inFlight_animateFrame:
  assumes t: "inFlight f cw s t"
  shows "inFlight f cw s (animateFrame g t)"
proof -
  let ?sel = "selection f s"
  let ?body = "\<lambda>piece index. piece\<lparr> position := fst (g index), rotation := snd (g index) \<rparr>"
  from t obtain a where a: "animation t = Some a" "animFace a = f" "animClockwise a = cw"
    "rotatingPieces a = ?sel"
    "originalPositions a = map (\<lambda>i. position (cubeState s ! i)) ?sel"
    "length (newState a) = length (cubeState s)"
    and rel: "\<forall>j<length (cubeState s).
              (j \<notin> set ?sel \<longrightarrow> newState a ! j = cubeState s ! j)
              \<and> pieceId (newState a ! j) = pieceId (cubeState s ! j)
              \<and> colors (newState a ! j) = colors (cubeState s ! j)
              \<and> animationRotation (newState a ! j) = animationRotation (cubeState s ! j)"
    and shuf: "isShuffling t = isShuffling s"
    unfolding inFlight_def by blast
  define st' where "st' = forEachPiece ?body ?sel 0 (newState a)"
  have frame: "animateFrame g t = t\<lparr> cubeState := st', animation := Some (a\<lparr> newState := st' \<rparr>) \<rparr>"
    by (simp add: animateFrame_def a st'_def Let_def)
  have len': "length st' = length (cubeState s)"
    by (simp add: st'_def length_forEachPiece a)
  have pieces: "(j \<notin> set ?sel \<longrightarrow> st' ! j = cubeState s ! j)
      \<and> pieceId (st' ! j) = pieceId (cubeState s ! j)
      \<and> colors (st' ! j) = colors (cubeState s ! j)
      \<and> animationRotation (st' ! j) = animationRotation (cubeState s ! j)"
    if j: "j < length (cubeState s)" for j
  proof (cases "j \<in> set ?sel")
    case False
    then have "st' ! j = newState a ! j" by (simp add: st'_def forEachPiece_nth_other)
    with rel j False show ?thesis by simp
  next
    case True
    then obtain m where m: "m < length ?sel" "?sel ! m = j"
      unfolding in_set_conv_nth by blast
    have "forEachPiece ?body ?sel 0 (newState a) ! (?sel ! m)
        = ?body (newState a ! (?sel ! m)) (0 + m)"
      by (rule forEachPiece_nth_selected) (use m a selection_props in auto)
    with m have "st' ! j = (newState a ! j)\<lparr> position := fst (g m), rotation := snd (g m) \<rparr>"
      by (simp add: st'_def)
    with rel j True show ?thesis by simp
  qed
  show ?thesis
    unfolding inFlight_def using a shuf len' pieces by (simp add: frame)
qed

lemma commitPiece_agree:
  assumes "pieceId p' = pieceId p" "colors p' = colors p"
    "animationRotation p' = animationRotation p"
  shows "commitPiece f cw orig p' = commitPiece f cw orig p"
  using assms by (simp add: commitPiece_def)

lemma animateComplete_inFlight:
  assumes idle: "\<not> isAnimating s" and t: "inFlight f cw s t"
  shows "cubeState (animateComplete t) = cubeState (turn f cw s)
     \<and> isAnimating (animateComplete t) = isAnimating (turn f cw s)
     \<and> isShuffling (animateComplete t) = isShuffling (turn f cw s)
     \<and> animation (animateComplete t) = animation (turn f cw s)"
proof -
  let ?sel = "selection f s"
  let ?orig = "map (\<lambda>i. position (cubeState s ! i)) ?sel"
  let ?body = "\<lambda>piece index. commitPiece f cw (?orig ! index) piece"
  from t obtain a where a: "animation t = Some a" "animFace a = f" "animClockwise a = cw"
    "rotatingPieces a = ?sel" "originalPositions a = ?orig"
    "length (newState a) = length (cubeState s)"
    and rel: "\<forall>j<length (cubeState s).
              (j \<notin> set ?sel \<longrightarrow> newState a ! j = cubeState s ! j)
              \<and> pieceId (newState a ! j) = pieceId (cubeState s ! j)
              \<and> colors (newState a ! j) = colors (cubeState s ! j)
              \<and> animationRotation (newState a ! j) = animationRotation (cubeState s ! j)"
    and shuf: "isShuffling t = isShuffling s"
    unfolding inFlight_def by blast
  have done_t: "animateComplete t
      = t\<lparr> cubeState := forEachPiece ?body ?sel 0 (newState a), isAnimating := False,
            animation := None \<rparr>"
    by (simp add: animateComplete_def a Let_def)
  have done_s: "turn f cw s
      = s\<lparr> cubeState := forEachPiece ?body ?sel 0 (cubeState s), isAnimating := True,
            isAnimating := False, animation := None \<rparr>"
    using idle by (simp add: turn_def rotateFace_def animateComplete_def Let_def selection_def)
  have "forEachPiece ?body ?sel 0 (newState a) = forEachPiece ?body ?sel 0 (cubeState s)"
  proof (rule nth_equalityI)
    show "length (forEachPiece ?body ?sel 0 (newState a))
        = length (forEachPiece ?body ?sel 0 (cubeState s))"
      by (simp add: length_forEachPiece a)
    fix j assume "j < length (forEachPiece ?body ?sel 0 (newState a))"
    then have j: "j < length (cubeState s)" by (simp add: length_forEachPiece a)
    show "forEachPiece ?body ?sel 0 (newState a) ! j = forEachPiece ?body ?sel 0 (cubeState s) ! j"
    proof (cases "j \<in> set ?sel")
      case False
      with rel j show ?thesis by (simp add: forEachPiece_nth_other)
    next
      case True
      then obtain m where m: "m < length ?sel" "?sel ! m = j"
        unfolding in_set_conv_nth by blast
      have "forEachPiece ?body ?sel 0 (newState a) ! (?sel ! m)
          = ?body (newState a ! (?sel ! m)) (0 + m)"
        by (rule forEachPiece_nth_selected) (use m a selection_props in auto)
      moreover have "forEachPiece ?body ?sel 0 (cubeState s) ! (?sel ! m)
          = ?body (cubeState s ! (?sel ! m)) (0 + m)"
        by (rule forEachPiece_nth_selected) (use m selection_props in auto)
      moreover have "?body (newState a ! j) m = ?body (cubeState s ! j) m"
        using rel j by (intro commitPiece_agree) simp_all
      ultimately show ?thesis using m by simp
    qed
  qed
  with shuf show ?thesis by (simp add: done_t done_s)
qed

lemma inFlight_frames:
  "inFlight f cw s t \<Longrightarrow> inFlight f cw s (fold animateFrame frames t)"
  by (induction frames arbitrary: t) (simp_all add: inFlight_animateFrame)

lemma frames_do_not_matter:
  assumes "\<not> isAnimating s"
  shows "animateComplete (fold animateFrame frames (rotateFace f cw s)) = turn f cw s"
proof -
  have "inFlight f cw s (fold animateFrame frames (rotateFace f cw s))"
    by (intro inFlight_frames inFlight_rotateFace assms)
  from animateComplete_inFlight [OF assms this] show ?thesis
    by (intro Engine.equality) simp_all
qed


text \<open>\<^verbatim>\<open>resetCube\<close> does not cancel a turn in flight: the completion of the turn writes
  the pieces of its own \<open>newState\<close> over the reset cube state.\<close>

lemma reset_during_turn:
  "animation t \<noteq> None \<Longrightarrow>
   cubeState (animateComplete (resetCube t)) = cubeState (animateComplete t)"
  by (auto simp: animateComplete_def resetCube_def Let_def)

lemma animate_frame_or_complete:
  "progress < 1 \<Longrightarrow> animate progress g t = animateFrame g t"
  "1 \<le> progress \<Longrightarrow> animate progress g t = animateComplete t"
  by (simp_all add: animate_def)

end
